theory Spec2Isabelle
  imports Complex_Main "HOL-Library.AList"
begin

section \<open>JavaScript values, errors and HTTP responses\<close>

text \<open>
  The service is an Express application (\<^verbatim>\<open>src/src/server.js\<close>). The file holds two
  variants of the server: lines 1-130 (key-value store only) and lines 131-364 (key-value
  or relational store, chosen by \<^verbatim>\<open>usePostgres\<close>). Handlers read request bodies parsed by
  \<^verbatim>\<open>express.json()\<close>, so the values they see are JavaScript values. A number is kept as
  the exact rational its double denotes: the handlers only ever test a value for
  truthiness, and a JSON number is falsy exactly when it is zero.
\<close>

datatype js =
    JUndefined
  | JNull
  | JBool bool
  | JNum rat
  | JStr string
  | JArr "js list"
  | JObj "(string \<times> js) list"

text \<open>JavaScript's \<^verbatim>\<open>ToBoolean\<close>: \<^verbatim>\<open>!v\<close> is \<open>\<not> truthy v\<close>.\<close>

fun truthy :: "js \<Rightarrow> bool" where
  "truthy JUndefined = False"
| "truthy JNull = False"
| "truthy (JBool b) = b"
| "truthy (JNum q) = (q \<noteq> 0)"
| "truthy (JStr s) = (s \<noteq> [])"
| "truthy (JArr xs) = True"
| "truthy (JObj kvs) = True"

text \<open>Reading a property of an object; a missing property reads as \<^verbatim>\<open>undefined\<close>.\<close>

definition js_prop :: "(string \<times> js) list \<Rightarrow> string \<Rightarrow> js" where
  "js_prop obj k = (case map_of obj k of None \<Rightarrow> JUndefined | Some v \<Rightarrow> v)"

text \<open>A thrown value: the error's \<^verbatim>\<open>name\<close> and \<^verbatim>\<open>message\<close>.\<close>

datatype js_error = JsError string string

text \<open>
  A request as the handlers use it: \<^verbatim>\<open>req.params.id\<close> and \<^verbatim>\<open>req.body\<close>. The JSON
  middleware (\<^verbatim>\<open>app.use(express.json())\<close>) hands every handler a body object, the empty
  object when the request carries no JSON. The object is the list of its properties, each
  key once, as \<^verbatim>\<open>JSON.parse\<close> leaves it.
\<close>

record request =
  params_id :: string
  req_body :: "(string \<times> js) list"

text \<open>
  What \<^verbatim>\<open>res.status(n).json(v)\<close> sends; \<^verbatim>\<open>res.json(v)\<close> alone sends status 200.
\<close>

record response =
  status :: nat
  body :: js

definition missing_fields :: response where
  "missing_fields = \<lparr>status = 400, body = JObj [(''error'', JStr ''Missing fields'')]\<rparr>"

definition internal_server_error :: response where
  "internal_server_error =
     \<lparr>status = 500, body = JObj [(''error'', JStr ''Internal server error'')]\<rparr>"

definition user_not_found :: response where
  "user_not_found = \<lparr>status = 404, body = JObj [(''error'', JStr ''User not found'')]\<rparr>"

definition user_created :: response where
  "user_created = \<lparr>status = 201, body = JObj [(''message'', JStr ''User created!'')]\<rparr>"

definition user_updated :: response where
  "user_updated = \<lparr>status = 200, body = JObj [(''message'', JStr ''User updated!'')]\<rparr>"

definition user_deleted :: response where
  "user_deleted = \<lparr>status = 200, body = JObj [(''message'', JStr ''User deleted!'')]\<rparr>"

section \<open>The storage clients and the order service, as the handlers call them\<close>

text \<open>
  A key-value item maps attribute names to attribute values. The service only writes
  string attributes, \<^verbatim>\<open>{ S: v }\<close>, and only reads the \<^verbatim>\<open>.S\<close> property of an
  attribute value: \<open>S v\<close> is an attribute value whose \<^verbatim>\<open>.S\<close> holds \<open>v\<close>.
\<close>

datatype attribute_value = S js

type_synonym item = "(string \<times> attribute_value) list"

text \<open>
  The commands handed to \<^verbatim>\<open>dynamo.send\<close>, with their fields in the order
  \<^verbatim>\<open>TableName\<close>, then \<^verbatim>\<open>Item\<close> or \<^verbatim>\<open>Key\<close>, then for the update
  \<^verbatim>\<open>UpdateExpression\<close>, \<^verbatim>\<open>ExpressionAttributeNames\<close>, \<^verbatim>\<open>ExpressionAttributeValues\<close>.
\<close>

datatype dynamo_command =
    PutItemCommand string item
  | GetItemCommand string item
  | UpdateItemCommand string item string "(string \<times> string) list" item
  | DeleteItemCommand string item
  | ScanCommand string

record dynamo_output =
  Item :: "item option"
  Items :: "item list option"

record pg_result =
  rows :: "js list"

definition TABLE :: string where
  "TABLE = ''Users''"

text \<open>The SQL texts of lines 213, 241, 286, 311 and 331.\<close>

definition sql_insert :: string where
  "sql_insert = ''INSERT INTO users (userId, name, email) VALUES ($1, $2, $3)''"

definition sql_select_by_id :: string where
  "sql_select_by_id = ''SELECT * FROM users WHERE userId=$1''"

definition sql_update :: string where
  "sql_update = ''UPDATE users SET name=$1, email=$2 WHERE userId=$3''"

definition sql_delete :: string where
  "sql_delete = ''DELETE FROM users WHERE userId=$1''"

definition sql_select_all :: string where
  "sql_select_all = ''SELECT * FROM users''"

definition update_expression :: string where
  "update_expression = ''SET #n = :n, email = :e''"

text \<open>
  Everything a handler does to the outside, in the order it does it: a command sent to the
  key-value store, a query sent to the relational store, the GET to the order service, a
  line written by \<^verbatim>\<open>console.error\<close>.
\<close>

datatype effect =
    DynamoSend dynamo_command
  | PgQuery string "js list"
  | AxiosGet string
  | ConsoleError string js_error

text \<open>
  The module's environment: the flag \<^verbatim>\<open>usePostgres\<close>, the two client variables
  \<^verbatim>\<open>pgClient\<close> and \<^verbatim>\<open>dynamo\<close> (undefined until \<^verbatim>\<open>initDB\<close> assigns one of them), and
  \<^verbatim>\<open>axios.get\<close>. A client is any function from the call and the state \<open>'s\<close> of the
  outside world to a result or a thrown error, and the next state: the handlers are
  modelled against every such behaviour, not against one store.
\<close>

record 's env =
  usePostgres :: bool
  pgClient :: "(string \<Rightarrow> js list \<Rightarrow> 's \<Rightarrow> (js_error + pg_result) \<times> 's) option"
  dynamo :: "(dynamo_command \<Rightarrow> 's \<Rightarrow> (js_error + dynamo_output) \<times> 's) option"
  axios_get :: "string \<Rightarrow> js_error + js"

text \<open>
  \<^verbatim>\<open>await pgClient.query(text, values)\<close> and \<^verbatim>\<open>await dynamo.send(command)\<close>: calling a
  method of an undefined client throws a TypeError before anything is sent.
\<close>

definition pg_call ::
  "'s env \<Rightarrow> string \<Rightarrow> js list \<Rightarrow> 's \<Rightarrow> (js_error + pg_result) \<times> 's \<times> effect list" where
  "pg_call env text vals s =
     (case pgClient env of
        None \<Rightarrow> (Inl (JsError ''TypeError'' ''Cannot read properties of undefined (reading query)''), s, [])
      | Some query \<Rightarrow>
          (case query text vals s of (r, s') \<Rightarrow> (r, s', [PgQuery text vals])))"

definition dynamo_call ::
  "'s env \<Rightarrow> dynamo_command \<Rightarrow> 's \<Rightarrow> (js_error + dynamo_output) \<times> 's \<times> effect list" where
  "dynamo_call env command s =
     (case dynamo env of
        None \<Rightarrow> (Inl (JsError ''TypeError'' ''Cannot read properties of undefined (reading send)''), s, [])
      | Some send \<Rightarrow>
          (case send command s of (r, s') \<Rightarrow> (r, s', [DynamoSend command])))"

text \<open>
  \<^verbatim>\<open>Item.userId.S\<close>: reading \<^verbatim>\<open>.S\<close> of a missing attribute throws a TypeError.
\<close>

definition attr_S :: "item \<Rightarrow> string \<Rightarrow> js_error + js" where
  "attr_S i k =
     (case map_of i k of
        None \<Rightarrow> Inl (JsError ''TypeError'' ''Cannot read properties of undefined (reading S)'')
      | Some (S v) \<Rightarrow> Inr v)"

text \<open>
  The object literal of lines 254-258 and 335-339:
  \<^verbatim>\<open>{ userId: Item.userId.S, name: Item.name.S, email: Item.email.S }\<close>.
\<close>

definition item_user :: "item \<Rightarrow> js_error + js" where
  "item_user i =
     (case attr_S i ''userId'' of
        Inl e \<Rightarrow> Inl e
      | Inr u \<Rightarrow>
          (case attr_S i ''name'' of
             Inl e \<Rightarrow> Inl e
           | Inr n \<Rightarrow>
               (case attr_S i ''email'' of
                  Inl e \<Rightarrow> Inl e
                | Inr m \<Rightarrow> Inr (JObj [(''userId'', u), (''name'', n), (''email'', m)]))))"

text \<open>\<^verbatim>\<open>items.map(i => ({...}))\<close>: the first item that throws ends the map.\<close>

fun map_users :: "item list \<Rightarrow> js_error + js list" where
  "map_users [] = Inr []"
| "map_users (i # rest) =
     (case item_user i of
        Inl e \<Rightarrow> Inl e
      | Inr u \<Rightarrow> (case map_users rest of Inl e \<Rightarrow> Inl e | Inr us \<Rightarrow> Inr (u # us)))"

text \<open>\<^verbatim>\<open>result.rows[0]\<close>: \<^verbatim>\<open>undefined\<close> when the query returned no row.\<close>

definition first_row :: "pg_result \<Rightarrow> js" where
  "first_row result = (case rows result of [] \<Rightarrow> JUndefined | r # _ \<Rightarrow> r)"

section \<open>The handlers of the two-backend server (lines 131-364)\<close>

text \<open>
  Every handler has the same layout: a presence check (create and update only), one
  storage step inside \<^verbatim>\<open>try\<close> that branches on \<^verbatim>\<open>usePostgres\<close>, the response, and a
  \<^verbatim>\<open>catch\<close> that logs the error and answers 500. The storage step of each handler is a
  definition of its own (\<open>storage_create\<close>, \<open>storage_get\<close>, \<open>storage_update\<close>,
  \<open>storage_delete\<close>, \<open>storage_list\<close>), so that a theorem can speak of "the storage call
  throws" for both backends at once. A step returns what the \<^verbatim>\<open>try\<close> block goes on with,
  or the thrown error, with the next state of the outside world and the calls issued.
\<close>

text \<open>Lines 211-227; the awaited result is not used.\<close>

definition storage_create ::
  "'s env \<Rightarrow> js \<Rightarrow> js \<Rightarrow> js \<Rightarrow> 's \<Rightarrow> (js_error + unit) \<times> 's \<times> effect list" where
  "storage_create env userId name email s =
     (if usePostgres env then
        (case pg_call env sql_insert [userId, name, email] s of
           (r, s', fx) \<Rightarrow> (map_sum id (\<lambda>_. ()) r, s', fx))
      else
        (case dynamo_call env
                (PutItemCommand TABLE
                   [(''userId'', S userId), (''name'', S name), (''email'', S email)]) s of
           (r, s', fx) \<Rightarrow> (map_sum id (\<lambda>_. ()) r, s', fx)))"

text \<open>
  Lines 238-259. \<open>Inr None\<close> is the early \<^verbatim>\<open>return res.status(404)\<close>; \<open>Inr (Some user)\<close>
  is the value of \<^verbatim>\<open>user\<close> after the branch: the row itself under \<^verbatim>\<open>usePostgres\<close>, a
  fresh object built from the item otherwise.
\<close>

definition storage_get ::
  "'s env \<Rightarrow> string \<Rightarrow> 's \<Rightarrow> (js_error + js option) \<times> 's \<times> effect list" where
  "storage_get env ident s =
     (if usePostgres env then
        (case pg_call env sql_select_by_id [JStr ident] s of
           (Inl e, s', fx) \<Rightarrow> (Inl e, s', fx)
         | (Inr result, s', fx) \<Rightarrow>
             (if \<not> truthy (first_row result) then (Inr None, s', fx)
              else (Inr (Some (first_row result)), s', fx)))
      else
        (case dynamo_call env (GetItemCommand TABLE [(''userId'', S (JStr ident))]) s of
           (Inl e, s', fx) \<Rightarrow> (Inl e, s', fx)
         | (Inr out, s', fx) \<Rightarrow>
             (case Item out of
                None \<Rightarrow> (Inr None, s', fx)
              | Some i \<Rightarrow>
                  (case item_user i of
                     Inl e \<Rightarrow> (Inl e, s', fx)
                   | Inr user \<Rightarrow> (Inr (Some user), s', fx)))))"

text \<open>Lines 284-299.\<close>

definition storage_update ::
  "'s env \<Rightarrow> string \<Rightarrow> js \<Rightarrow> js \<Rightarrow> 's \<Rightarrow> (js_error + unit) \<times> 's \<times> effect list" where
  "storage_update env ident name email s =
     (if usePostgres env then
        (case pg_call env sql_update [name, email, JStr ident] s of
           (r, s', fx) \<Rightarrow> (map_sum id (\<lambda>_. ()) r, s', fx))
      else
        (case dynamo_call env
                (UpdateItemCommand TABLE [(''userId'', S (JStr ident))] update_expression
                   [(''#n'', ''name'')] [('':n'', S name), ('':e'', S email)]) s of
           (r, s', fx) \<Rightarrow> (map_sum id (\<lambda>_. ()) r, s', fx)))"

text \<open>Lines 310-319.\<close>

definition storage_delete ::
  "'s env \<Rightarrow> string \<Rightarrow> 's \<Rightarrow> (js_error + unit) \<times> 's \<times> effect list" where
  "storage_delete env ident s =
     (if usePostgres env then
        (case pg_call env sql_delete [JStr ident] s of
           (r, s', fx) \<Rightarrow> (map_sum id (\<lambda>_. ()) r, s', fx))
      else
        (case dynamo_call env (DeleteItemCommand TABLE [(''userId'', S (JStr ident))]) s of
           (r, s', fx) \<Rightarrow> (map_sum id (\<lambda>_. ()) r, s', fx)))"

text \<open>
  Lines 330-341: the value handed to \<^verbatim>\<open>res.json\<close>, \<^verbatim>\<open>result.rows\<close> as it is under
  \<^verbatim>\<open>usePostgres\<close>, the mapped \<^verbatim>\<open>result.Items || []\<close> otherwise.
\<close>

definition storage_list :: "'s env \<Rightarrow> 's \<Rightarrow> (js_error + js) \<times> 's \<times> effect list" where
  "storage_list env s =
     (if usePostgres env then
        (case pg_call env sql_select_all [] s of
           (Inl e, s', fx) \<Rightarrow> (Inl e, s', fx)
         | (Inr result, s', fx) \<Rightarrow> (Inr (JArr (rows result)), s', fx))
      else
        (case dynamo_call env (ScanCommand TABLE) s of
           (Inl e, s', fx) \<Rightarrow> (Inl e, s', fx)
         | (Inr result, s', fx) \<Rightarrow>
             (case map_users (case Items result of None \<Rightarrow> [] | Some is \<Rightarrow> is) of
                Inl e \<Rightarrow> (Inl e, s', fx)
              | Inr users \<Rightarrow> (Inr (JArr users), s', fx))))"

text \<open>\<^verbatim>\<open>app.post('/users', ...)\<close>, lines 205-233.\<close>

definition post_users :: "'s env \<Rightarrow> request \<Rightarrow> 's \<Rightarrow> response \<times> 's \<times> effect list" where
  "post_users env req s =
     (let userId = js_prop (req_body req) ''userId'';
          name = js_prop (req_body req) ''name'';
          email = js_prop (req_body req) ''email''
      in if \<not> truthy userId \<or> \<not> truthy name \<or> \<not> truthy email then (missing_fields, s, [])
         else
           (case storage_create env userId name email s of
              (Inr _, s', fx) \<Rightarrow> (user_created, s', fx)
            | (Inl error, s', fx) \<Rightarrow>
                (internal_server_error, s', fx @ [ConsoleError ''Create user error:'' error])))"

text \<open>The URL of line 264, the id spliced in as it is.\<close>

definition orders_url :: "string \<Rightarrow> string" where
  "orders_url ident = ''http://localhost:4001/orders?user='' @ ident"

text \<open>
  \<^verbatim>\<open>app.get('/users/:id', ...)\<close>, lines 236-275. The order lookup (lines 262-268) starts
  from \<^verbatim>\<open>orders = []\<close> and keeps it when \<^verbatim>\<open>axios.get\<close> throws.
\<close>

definition get_users_id :: "'s env \<Rightarrow> request \<Rightarrow> 's \<Rightarrow> response \<times> 's \<times> effect list" where
  "get_users_id env req s =
     (case storage_get env (params_id req) s of
        (Inl error, s', fx) \<Rightarrow>
          (internal_server_error, s', fx @ [ConsoleError ''Get user error:'' error])
      | (Inr None, s', fx) \<Rightarrow> (user_not_found, s', fx)
      | (Inr (Some user), s', fx) \<Rightarrow>
          (let orders =
                 (case axios_get env (orders_url (params_id req)) of
                    Inl _ \<Rightarrow> JArr []
                  | Inr data \<Rightarrow> data)
           in (\<lparr>status = 200, body = JObj [(''user'', user), (''orders'', orders)]\<rparr>,
               s', fx @ [AxiosGet (orders_url (params_id req))])))"

text \<open>\<^verbatim>\<open>app.put('/users/:id', ...)\<close>, lines 278-305.\<close>

definition put_users_id :: "'s env \<Rightarrow> request \<Rightarrow> 's \<Rightarrow> response \<times> 's \<times> effect list" where
  "put_users_id env req s =
     (let name = js_prop (req_body req) ''name'';
          email = js_prop (req_body req) ''email''
      in if \<not> truthy name \<or> \<not> truthy email then (missing_fields, s, [])
         else
           (case storage_update env (params_id req) name email s of
              (Inr _, s', fx) \<Rightarrow> (user_updated, s', fx)
            | (Inl error, s', fx) \<Rightarrow>
                (internal_server_error, s', fx @ [ConsoleError ''Update user error:'' error])))"

text \<open>\<^verbatim>\<open>app.delete('/users/:id', ...)\<close>, lines 308-325.\<close>

definition delete_users_id :: "'s env \<Rightarrow> request \<Rightarrow> 's \<Rightarrow> response \<times> 's \<times> effect list" where
  "delete_users_id env req s =
     (case storage_delete env (params_id req) s of
        (Inr _, s', fx) \<Rightarrow> (user_deleted, s', fx)
      | (Inl error, s', fx) \<Rightarrow>
          (internal_server_error, s', fx @ [ConsoleError ''Delete user error:'' error]))"

text \<open>\<^verbatim>\<open>app.get('/users', ...)\<close>, lines 328-346.\<close>

definition get_users :: "'s env \<Rightarrow> request \<Rightarrow> 's \<Rightarrow> response \<times> 's \<times> effect list" where
  "get_users env req s =
     (case storage_list env s of
        (Inr users, s', fx) \<Rightarrow> (\<lparr>status = 200, body = users\<rparr>, s', fx)
      | (Inl error, s', fx) \<Rightarrow>
          (internal_server_error, s', fx @ [ConsoleError ''List users error:'' error]))"

section \<open>The handlers of the key-value-only server (lines 1-130)\<close>

text \<open>
  This variant creates its client when the module loads (line 9), so the client is always
  defined: the handlers take the client's \<^verbatim>\<open>send\<close> and \<^verbatim>\<open>axios.get\<close> directly.
\<close>

definition send_v1 ::
  "(dynamo_command \<Rightarrow> 's \<Rightarrow> (js_error + dynamo_output) \<times> 's) \<Rightarrow> dynamo_command \<Rightarrow> 's \<Rightarrow>
     (js_error + dynamo_output) \<times> 's \<times> effect list" where
  "send_v1 send command s = (case send command s of (r, s') \<Rightarrow> (r, s', [DynamoSend command]))"

text \<open>\<^verbatim>\<open>app.post('/users', ...)\<close>, lines 17-34.\<close>

definition post_users_v1 ::
  "(dynamo_command \<Rightarrow> 's \<Rightarrow> (js_error + dynamo_output) \<times> 's) \<Rightarrow> request \<Rightarrow> 's \<Rightarrow>
     response \<times> 's \<times> effect list" where
  "post_users_v1 send req s =
     (let userId = js_prop (req_body req) ''userId'';
          name = js_prop (req_body req) ''name'';
          email = js_prop (req_body req) ''email''
      in if \<not> truthy userId \<or> \<not> truthy name \<or> \<not> truthy email then (missing_fields, s, [])
         else
           (case send_v1 send
                   (PutItemCommand TABLE
                      [(''userId'', S userId), (''name'', S name), (''email'', S email)]) s of
              (Inr _, s', fx) \<Rightarrow> (user_created, s', fx)
            | (Inl err, s', fx) \<Rightarrow>
                (internal_server_error, s', fx @ [ConsoleError ''DynamoDB Put error'' err])))"

text \<open>
  \<^verbatim>\<open>app.put('/users/:id', ...)\<close>, lines 64-79: \<^verbatim>\<open>name\<close> and \<^verbatim>\<open>email\<close> are read from
  the body and sent on as they are, with no presence check.
\<close>

definition put_users_id_v1 ::
  "(dynamo_command \<Rightarrow> 's \<Rightarrow> (js_error + dynamo_output) \<times> 's) \<Rightarrow> request \<Rightarrow> 's \<Rightarrow>
     response \<times> 's \<times> effect list" where
  "put_users_id_v1 send req s =
     (let name = js_prop (req_body req) ''name'';
          email = js_prop (req_body req) ''email''
      in case send_v1 send
                (UpdateItemCommand TABLE [(''userId'', S (JStr (params_id req)))]
                   update_expression [(''#n'', ''name'')] [('':n'', S name), ('':e'', S email)]) s of
           (Inr _, s', fx) \<Rightarrow> (user_updated, s', fx)
         | (Inl err, s', fx) \<Rightarrow>
             (internal_server_error, s', fx @ [ConsoleError ''DynamoDB Update error'' err]))"

section \<open>The two stores\<close>

text \<open>
  The stores are services outside the repository. For the properties that depend on what
  a store keeps (create then read, create on an existing id, delete then read) each is
  modelled by its documented behaviour on the calls the handlers issue, on a table that
  exists (as it does once \<^verbatim>\<open>initDB\<close>, lines 158-202, has run).
\<close>

subsection \<open>The key-value store\<close>

text \<open>
  The table \<^verbatim>\<open>Users\<close> with hash key \<^verbatim>\<open>userId\<close> of type string (lines 187-192), as the
  list of its items. A string attribute must hold a string, and a key attribute a
  non-empty one; a request that breaks this is rejected and changes nothing.
\<close>

definition string_attr :: "attribute_value \<Rightarrow> bool" where
  "string_attr a = (case a of S (JStr _) \<Rightarrow> True | _ \<Rightarrow> False)"

definition item_key :: "item \<Rightarrow> attribute_value option" where
  "item_key i = map_of i ''userId''"

definition key_ok :: "item \<Rightarrow> bool" where
  "key_ok k = (case k of [(a, S (JStr v))] \<Rightarrow> a = ''userId'' \<and> v \<noteq> [] | _ \<Rightarrow> False)"

definition item_ok :: "item \<Rightarrow> bool" where
  "item_ok i =
     (list_all (\<lambda>(a, v). string_attr v) i \<and>
      (case item_key i of Some (S (JStr v)) \<Rightarrow> v \<noteq> [] | _ \<Rightarrow> False))"

definition validation_exception :: js_error where
  "validation_exception =
     JsError ''ValidationException'' ''One or more parameter values were invalid''"

definition resource_not_found_exception :: js_error where
  "resource_not_found_exception =
     JsError ''ResourceNotFoundException'' ''Cannot do operations on a non-existent table''"

definition no_output :: dynamo_output where
  "no_output = \<lparr>Item = None, Items = None\<rparr>"

text \<open>
  \<^verbatim>\<open>PutItem\<close> replaces the item with the same key or adds a new one; \<^verbatim>\<open>GetItem\<close>
  returns the item with the key, if any; \<^verbatim>\<open>UpdateItem\<close> with the service's one
  expression sets \<^verbatim>\<open>name\<close> and \<^verbatim>\<open>email\<close> of the item with the key and creates the
  item when there is none; \<^verbatim>\<open>DeleteItem\<close> removes the item with the key, if any;
  \<^verbatim>\<open>Scan\<close> returns every item.
\<close>

fun dynamo_model :: "dynamo_command \<Rightarrow> item list \<Rightarrow> (js_error + dynamo_output) \<times> item list" where
  "dynamo_model (PutItemCommand tn it) t =
     (if tn \<noteq> TABLE then (Inl resource_not_found_exception, t)
      else if \<not> item_ok it then (Inl validation_exception, t)
      else (Inr no_output, filter (\<lambda>i. item_key i \<noteq> item_key it) t @ [it]))"
| "dynamo_model (GetItemCommand tn k) t =
     (if tn \<noteq> TABLE then (Inl resource_not_found_exception, t)
      else if \<not> key_ok k then (Inl validation_exception, t)
      else (Inr \<lparr>Item = find (\<lambda>i. item_key i = item_key k) t, Items = None\<rparr>, t))"
| "dynamo_model (UpdateItemCommand tn k expr names vals) t =
     (if tn \<noteq> TABLE then (Inl resource_not_found_exception, t)
      else if \<not> key_ok k \<or> expr \<noteq> update_expression \<or> names \<noteq> [(''#n'', ''name'')]
        then (Inl validation_exception, t)
      else
        (case (map_of vals '':n'', map_of vals '':e'') of
           (Some n, Some e) \<Rightarrow>
             (if \<not> string_attr n \<or> \<not> string_attr e then (Inl validation_exception, t)
              else if list_ex (\<lambda>i. item_key i = item_key k) t then
                (Inr no_output,
                 map (\<lambda>i. if item_key i = item_key k
                           then AList.update ''email'' e (AList.update ''name'' n i) else i) t)
              else (Inr no_output, t @ [k @ [(''name'', n), (''email'', e)]]))
         | _ \<Rightarrow> (Inl validation_exception, t)))"
| "dynamo_model (DeleteItemCommand tn k) t =
     (if tn \<noteq> TABLE then (Inl resource_not_found_exception, t)
      else if \<not> key_ok k then (Inl validation_exception, t)
      else (Inr no_output, filter (\<lambda>i. item_key i \<noteq> item_key k) t))"
| "dynamo_model (ScanCommand tn) t =
     (if tn \<noteq> TABLE then (Inl resource_not_found_exception, t)
      else (Inr \<lparr>Item = None, Items = Some t\<rparr>, t))"

text \<open>The environment after \<^verbatim>\<open>initDB\<close> without \<^verbatim>\<open>USE_POSTGRES\<close> (lines 175-179).\<close>

definition dynamo_env :: "(string \<Rightarrow> js_error + js) \<Rightarrow> (item list) env" where
  "dynamo_env ax = \<lparr>usePostgres = False, pgClient = None, dynamo = Some dynamo_model, axios_get = ax\<rparr>"

subsection \<open>The relational store\<close>

text \<open>
  The table of lines 167-171, \<^verbatim>\<open>users (userid TEXT PRIMARY KEY, name TEXT NOT NULL,
  email TEXT NOT NULL)\<close>, as the list of its rows. An unquoted identifier is folded to
  lower case, so \<^verbatim>\<open>userId\<close> in the five statements names the column \<^verbatim>\<open>userid\<close>, and
  \<^verbatim>\<open>SELECT *\<close> returns each row as an object keyed by the column names. The columns hold
  text: the model answers a parameter that is not a string with an error (the driver
  would convert some of them; no result below rests on this case).
\<close>

type_synonym pg_row = "string \<times> string \<times> string"

definition row_object :: "pg_row \<Rightarrow> js" where
  "row_object r =
     (case r of (u, n, e) \<Rightarrow> JObj [(''userid'', JStr u), (''name'', JStr n), (''email'', JStr e)])"

fun pg_text :: "js \<Rightarrow> string option" where
  "pg_text (JStr v) = Some v"
| "pg_text _ = None"

definition unique_violation :: js_error where
  "unique_violation =
     JsError ''error'' ''duplicate key value violates unique constraint users_pkey''"

definition invalid_parameters :: js_error where
  "invalid_parameters = JsError ''error'' ''parameter is not a text value''"

definition syntax_error :: js_error where
  "syntax_error = JsError ''error'' ''statement not understood''"

definition pg_model :: "string \<Rightarrow> js list \<Rightarrow> pg_row list \<Rightarrow> (js_error + pg_result) \<times> pg_row list" where
  "pg_model text vals t =
     (if text = sql_insert then
        (case map pg_text vals of
           [Some u, Some n, Some e] \<Rightarrow>
             (if list_ex (\<lambda>r. fst r = u) t then (Inl unique_violation, t)
              else (Inr \<lparr>rows = []\<rparr>, t @ [(u, n, e)]))
         | _ \<Rightarrow> (Inl invalid_parameters, t))
      else if text = sql_select_by_id then
        (case map pg_text vals of
           [Some u] \<Rightarrow> (Inr \<lparr>rows = map row_object (filter (\<lambda>r. fst r = u) t)\<rparr>, t)
         | _ \<Rightarrow> (Inl invalid_parameters, t))
      else if text = sql_update then
        (case map pg_text vals of
           [Some n, Some e, Some u] \<Rightarrow>
             (Inr \<lparr>rows = []\<rparr>, map (\<lambda>r. if fst r = u then (u, n, e) else r) t)
         | _ \<Rightarrow> (Inl invalid_parameters, t))
      else if text = sql_delete then
        (case map pg_text vals of
           [Some u] \<Rightarrow> (Inr \<lparr>rows = []\<rparr>, filter (\<lambda>r. fst r \<noteq> u) t)
         | _ \<Rightarrow> (Inl invalid_parameters, t))
      else if text = sql_select_all then (Inr \<lparr>rows = map row_object t\<rparr>, t)
      else (Inl syntax_error, t))"

text \<open>The environment after \<^verbatim>\<open>initDB\<close> with \<^verbatim>\<open>USE_POSTGRES=true\<close> (lines 159-173).\<close>

definition pg_env :: "(string \<Rightarrow> js_error + js) \<Rightarrow> (pg_row list) env" where
  "pg_env ax = \<lparr>usePostgres = True, pgClient = Some pg_model, dynamo = None, axios_get = ax\<rparr>"

section \<open>Auxiliary facts\<close>

lemma status_simps:
  "status missing_fields = 400" "status internal_server_error = 500"
  "status user_not_found = 404" "status user_created = 201"
  "status user_updated = 200" "status user_deleted = 200"
  by (simp_all add: missing_fields_def internal_server_error_def user_not_found_def
      user_created_def user_updated_def user_deleted_def)

lemma absent_or_empty_falsy:
  "map_of b k = None \<or> map_of b k = Some (JStr []) \<Longrightarrow> \<not> truthy (js_prop b k)"
  by (auto simp: js_prop_def)

lemma env_simps:
  "usePostgres (pg_env ax) = True" "pgClient (pg_env ax) = Some pg_model"
  "dynamo (pg_env ax) = None" "axios_get (pg_env ax) = ax"
  "usePostgres (dynamo_env ax) = False" "pgClient (dynamo_env ax) = None"
  "dynamo (dynamo_env ax) = Some dynamo_model" "axios_get (dynamo_env ax) = ax"
  by (simp_all add: pg_env_def dynamo_env_def)

lemma client_throw_reaches_handler:
  "pgClient env = Some query \<Longrightarrow> fst (query text vals s) = Inl e \<Longrightarrow>
     fst (pg_call env text vals s) = Inl e"
  "dynamo env = Some send \<Longrightarrow> fst (send command s) = Inl e \<Longrightarrow>
     fst (dynamo_call env command s) = Inl e"
  by (auto simp: pg_call_def dynamo_call_def split: prod.splits)

subsection \<open>The relational store on the service's five statements\<close>

lemma sql_distinct:
  "sql_select_by_id \<noteq> sql_insert" "sql_update \<noteq> sql_insert" "sql_delete \<noteq> sql_insert"
  "sql_select_all \<noteq> sql_insert" "sql_update \<noteq> sql_select_by_id"
  "sql_delete \<noteq> sql_select_by_id" "sql_select_all \<noteq> sql_select_by_id"
  "sql_delete \<noteq> sql_update" "sql_select_all \<noteq> sql_update" "sql_select_all \<noteq> sql_delete"
  by (simp_all add: sql_insert_def sql_select_by_id_def sql_update_def sql_delete_def
      sql_select_all_def)

lemma pg_insert:
  "pg_model sql_insert [JStr u, JStr n, JStr e] t =
     (if list_ex (\<lambda>r. fst r = u) t then (Inl unique_violation, t)
      else (Inr \<lparr>rows = []\<rparr>, t @ [(u, n, e)]))"
  by (simp add: pg_model_def)

lemma pg_select_by_id:
  "pg_model sql_select_by_id [JStr u] t =
     (Inr \<lparr>rows = map row_object (filter (\<lambda>r. fst r = u) t)\<rparr>, t)"
  by (simp add: pg_model_def sql_distinct)

lemma pg_delete:
  "pg_model sql_delete [JStr u] t = (Inr \<lparr>rows = []\<rparr>, filter (\<lambda>r. fst r \<noteq> u) t)"
  by (simp add: pg_model_def sql_distinct)

lemma pg_select_all:
  "pg_model sql_select_all [] t = (Inr \<lparr>rows = map row_object t\<rparr>, t)"
  by (simp add: pg_model_def sql_distinct)

lemma truthy_row_object: "truthy (row_object r)"
  by (cases r) (simp add: row_object_def)

lemma filter_none: "\<not> list_ex P xs \<Longrightarrow> filter P xs = []"
  by (induction xs) auto

subsection \<open>The key-value store on the service's keys and items\<close>

lemma key_ok_userId: "key_ok [(''userId'', S (JStr u))] = (u \<noteq> [])"
  by (simp add: key_ok_def)

lemma item_key_userId: "item_key ((''userId'', v) # rest) = Some v"
  by (simp add: item_key_def)

lemma item_ok_user:
  "item_ok [(''userId'', S (JStr u)), (''name'', S (JStr n)), (''email'', S (JStr e))] = (u \<noteq> [])"
  by (simp add: item_ok_def item_key_def string_attr_def)

lemma item_user_user:
  "item_user [(''userId'', S u), (''name'', S n), (''email'', S e)] =
     Inr (JObj [(''userId'', u), (''name'', n), (''email'', e)])"
  by (simp add: item_user_def attr_S_def)

lemma find_filter_append:
  "find P (filter (\<lambda>x. \<not> P x) xs @ [y]) = (if P y then Some y else None)"
  by (induction xs) auto

lemma find_filter_none: "find P (filter (\<lambda>x. \<not> P x) xs) = None"
  by (induction xs) auto

subsection \<open>The handlers on the two stores\<close>

lemma post_users_pg:
  assumes "js_prop (req_body req) ''userId'' = JStr u" "js_prop (req_body req) ''name'' = JStr n"
    "js_prop (req_body req) ''email'' = JStr e" "u \<noteq> []" "n \<noteq> []" "e \<noteq> []"
  shows "post_users (pg_env ax) req t =
     (if list_ex (\<lambda>r. fst r = u) t
      then (internal_server_error, t,
            [PgQuery sql_insert [JStr u, JStr n, JStr e],
             ConsoleError ''Create user error:'' unique_violation])
      else (user_created, t @ [(u, n, e)], [PgQuery sql_insert [JStr u, JStr n, JStr e]]))"
  using assms
  by (simp add: post_users_def storage_create_def pg_call_def env_simps pg_insert Let_def)

lemma post_users_dynamo:
  assumes "js_prop (req_body req) ''userId'' = JStr u" "js_prop (req_body req) ''name'' = JStr n"
    "js_prop (req_body req) ''email'' = JStr e" "u \<noteq> []" "n \<noteq> []" "e \<noteq> []"
  shows "post_users (dynamo_env ax) req t =
     (user_created,
      filter (\<lambda>i. item_key i \<noteq> Some (S (JStr u))) t
        @ [[(''userId'', S (JStr u)), (''name'', S (JStr n)), (''email'', S (JStr e))]],
      [DynamoSend (PutItemCommand TABLE
         [(''userId'', S (JStr u)), (''name'', S (JStr n)), (''email'', S (JStr e))])])"
  using assms
  by (simp add: post_users_def storage_create_def dynamo_call_def env_simps item_ok_user
      item_key_userId Let_def)

lemma get_users_id_pg:
  "get_users_id (pg_env ax) req t =
     (case filter (\<lambda>r. fst r = params_id req) t of
        [] \<Rightarrow> (user_not_found, t, [PgQuery sql_select_by_id [JStr (params_id req)]])
      | r # _ \<Rightarrow>
          (\<lparr>status = 200,
            body = JObj [(''user'', row_object r),
                         (''orders'', case ax (orders_url (params_id req)) of
                                        Inl _ \<Rightarrow> JArr [] | Inr d \<Rightarrow> d)]\<rparr>,
           t, [PgQuery sql_select_by_id [JStr (params_id req)],
               AxiosGet (orders_url (params_id req))]))"
  by (simp add: get_users_id_def storage_get_def pg_call_def env_simps pg_select_by_id
      first_row_def truthy_row_object split: list.splits)

lemma storage_get_dynamo:
  "ident \<noteq> [] \<Longrightarrow> storage_get (dynamo_env ax) ident t =
     (case find (\<lambda>i. item_key i = Some (S (JStr ident))) t of
        None \<Rightarrow> Inr None
      | Some i \<Rightarrow> (case item_user i of Inl e \<Rightarrow> Inl e | Inr user \<Rightarrow> Inr (Some user)),
      t, [DynamoSend (GetItemCommand TABLE [(''userId'', S (JStr ident))])])"
  by (simp add: storage_get_def dynamo_call_def env_simps key_ok_userId item_key_userId
      split: option.splits sum.splits)

lemma get_users_id_dynamo:
  "params_id req \<noteq> [] \<Longrightarrow> get_users_id (dynamo_env ax) req t =
     (case find (\<lambda>i. item_key i = Some (S (JStr (params_id req)))) t of
        None \<Rightarrow> (user_not_found, t,
                 [DynamoSend (GetItemCommand TABLE [(''userId'', S (JStr (params_id req)))])])
      | Some i \<Rightarrow>
          (case item_user i of
             Inl e \<Rightarrow> (internal_server_error, t,
                       [DynamoSend (GetItemCommand TABLE [(''userId'', S (JStr (params_id req)))]),
                        ConsoleError ''Get user error:'' e])
           | Inr user \<Rightarrow>
               (\<lparr>status = 200,
                 body = JObj [(''user'', user),
                              (''orders'', case ax (orders_url (params_id req)) of
                                             Inl _ \<Rightarrow> JArr [] | Inr d \<Rightarrow> d)]\<rparr>,
                t, [DynamoSend (GetItemCommand TABLE [(''userId'', S (JStr (params_id req)))]),
                    AxiosGet (orders_url (params_id req))])))"
  by (simp add: get_users_id_def storage_get_dynamo env_simps Let_def
      split: option.splits sum.splits)

section \<open>Presence checks\<close>

text \<open>
  C4. A \<^verbatim>\<open>POST /users\<close> whose body lacks one of \<^verbatim>\<open>userId\<close>, \<^verbatim>\<open>name\<close>, \<^verbatim>\<open>email\<close>, or
  carries it as the empty string, is answered with status 400 and the body
  \<^verbatim>\<open>{error: "Missing fields"}\<close>, whatever the environment (the flag, the clients, the
  state of the store), in both variants of the server.
\<close>

theorem post_users_missing_fields:
  assumes "k \<in> {''userId'', ''name'', ''email''}"
    and "map_of (req_body req) k = None \<or> map_of (req_body req) k = Some (JStr [])"
  shows "fst (post_users env req s) =
           \<lparr>status = 400, body = JObj [(''error'', JStr ''Missing fields'')]\<rparr>
         \<and> fst (post_users_v1 send req s) =
           \<lparr>status = 400, body = JObj [(''error'', JStr ''Missing fields'')]\<rparr>"
proof -
  have "\<not> truthy (js_prop (req_body req) k)"
    using assms(2) by (rule absent_or_empty_falsy)
  with assms(1) show ?thesis
    by (auto simp: post_users_def post_users_v1_def Let_def missing_fields_def)
qed

text \<open>
  The request of \<^verbatim>\<open>src/src/tests/userError.test.js\<close>: the body \<^verbatim>\<open>{name: 'Test'}\<close>, sent
  to an application whose clients were never initialised.
\<close>

theorem post_users_missing_fields_witness:
  "''userId'' \<in> {''userId'', ''name'', ''email''}
   \<and> map_of [(''name'', JStr ''Test'')] ''userId'' = None
   \<and> fst (post_users \<lparr>usePostgres = False, pgClient = None, dynamo = None,
                       axios_get = (\<lambda>_. Inr (JArr []))\<rparr>
             \<lparr>params_id = [], req_body = [(''name'', JStr ''Test'')]\<rparr> ()) =
         \<lparr>status = 400, body = JObj [(''error'', JStr ''Missing fields'')]\<rparr>"
  using post_users_missing_fields
    [of "''userId''" "\<lparr>params_id = [], req_body = [(''name'', JStr ''Test'')]\<rparr>"
        "\<lparr>usePostgres = False, pgClient = None, dynamo = None, axios_get = (\<lambda>_. Inr (JArr []))\<rparr>"
        "()" "\<lambda>c s. (Inr no_output, s)"]
  by simp

text \<open>
  C10. A \<^verbatim>\<open>POST /users\<close> or \<^verbatim>\<open>PUT /users/:id\<close> answered with status 400 has issued no
  call at all (no store command, no query, no outbound request, no log line) and leaves
  the state of the outside world, the store included, as it was.
\<close>

theorem rejected_request_issues_nothing:
  "(status (fst (post_users env req s)) = 400 \<longrightarrow> snd (post_users env req s) = (s, []))
   \<and> (status (fst (put_users_id env req s)) = 400 \<longrightarrow> snd (put_users_id env req s) = (s, []))
   \<and> (status (fst (post_users_v1 send req s)) = 400 \<longrightarrow> snd (post_users_v1 send req s) = (s, []))"
  by (simp add: post_users_def put_users_id_def post_users_v1_def Let_def status_simps
      split: prod.splits sum.splits)

text \<open>A create and an update with an empty \<^verbatim>\<open>name\<close>, on a relational table of one row.\<close>

theorem rejected_request_issues_nothing_witness:
  "status (fst (post_users (pg_env (\<lambda>_. Inr (JArr [])))
             \<lparr>params_id = ''u1'', req_body = [(''userId'', JStr ''u1''), (''name'', JStr []),
                                              (''email'', JStr ''ann@x.com'')]\<rparr>
             [(''u1'', ''Ann'', ''ann@x.com'')])) = 400
   \<and> snd (post_users (pg_env (\<lambda>_. Inr (JArr [])))
             \<lparr>params_id = ''u1'', req_body = [(''userId'', JStr ''u1''), (''name'', JStr []),
                                              (''email'', JStr ''ann@x.com'')]\<rparr>
             [(''u1'', ''Ann'', ''ann@x.com'')]) = ([(''u1'', ''Ann'', ''ann@x.com'')], [])
   \<and> status (fst (put_users_id (pg_env (\<lambda>_. Inr (JArr [])))
             \<lparr>params_id = ''u1'', req_body = [(''userId'', JStr ''u1''), (''name'', JStr []),
                                              (''email'', JStr ''ann@x.com'')]\<rparr>
             [(''u1'', ''Ann'', ''ann@x.com'')])) = 400
   \<and> snd (put_users_id (pg_env (\<lambda>_. Inr (JArr [])))
             \<lparr>params_id = ''u1'', req_body = [(''userId'', JStr ''u1''), (''name'', JStr []),
                                              (''email'', JStr ''ann@x.com'')]\<rparr>
             [(''u1'', ''Ann'', ''ann@x.com'')]) = ([(''u1'', ''Ann'', ''ann@x.com'')], [])
   \<and> status (fst (post_users_v1 (\<lambda>c s. (Inr no_output, s))
             \<lparr>params_id = ''u1'', req_body = [(''userId'', JStr ''u1''), (''name'', JStr []),
                                              (''email'', JStr ''ann@x.com'')]\<rparr>
             [(''u1'', ''Ann'', ''ann@x.com'')])) = 400
   \<and> snd (post_users_v1 (\<lambda>c s. (Inr no_output, s))
             \<lparr>params_id = ''u1'', req_body = [(''userId'', JStr ''u1''), (''name'', JStr []),
                                              (''email'', JStr ''ann@x.com'')]\<rparr>
             [(''u1'', ''Ann'', ''ann@x.com'')]) = ([(''u1'', ''Ann'', ''ann@x.com'')], [])"
  using rejected_request_issues_nothing
    [of "pg_env (\<lambda>_. Inr (JArr []))"
        "\<lparr>params_id = ''u1'', req_body = [(''userId'', JStr ''u1''), (''name'', JStr []),
                                         (''email'', JStr ''ann@x.com'')]\<rparr>"
        "[(''u1'', ''Ann'', ''ann@x.com'')]" "\<lambda>c s. (Inr no_output, s)"]
  by (simp add: post_users_def put_users_id_def post_users_v1_def js_prop_def Let_def status_simps)

text \<open>
  C2. The claim is that every variant answers a \<^verbatim>\<open>PUT /users/:id\<close> without \<^verbatim>\<open>name\<close> or
  \<^verbatim>\<open>email\<close> with status 400 and sends no update. The handler of lines 64-79 has no
  presence check: whatever the body and whatever the store answers, it sends the
  \<^verbatim>\<open>UpdateItemCommand\<close> with the two fields as they were read, and its status is never 400.
\<close>

theorem put_users_id_v1_has_no_presence_check:
  "status (fst (put_users_id_v1 send req s)) \<noteq> 400
   \<and> (\<exists>rest. snd (snd (put_users_id_v1 send req s)) =
         DynamoSend (UpdateItemCommand TABLE [(''userId'', S (JStr (params_id req)))]
                       update_expression [(''#n'', ''name'')]
                       [('':n'', S (js_prop (req_body req) ''name'')),
                        ('':e'', S (js_prop (req_body req) ''email''))]) # rest)"
  by (simp add: put_users_id_v1_def send_v1_def Let_def status_simps
      split: prod.splits sum.splits)

text \<open>
  On the key-value store: an empty body yields two undefined attribute values, which the
  store rejects, and the handler answers 500; an empty \<^verbatim>\<open>name\<close> is stored, and the
  handler answers 200.
\<close>

theorem put_users_id_v1_has_no_presence_check_witness:
  "put_users_id_v1 dynamo_model \<lparr>params_id = ''u1'', req_body = []\<rparr> [] =
     (\<lparr>status = 500, body = JObj [(''error'', JStr ''Internal server error'')]\<rparr>, [],
      [DynamoSend (UpdateItemCommand TABLE [(''userId'', S (JStr ''u1''))] update_expression
                     [(''#n'', ''name'')] [('':n'', S JUndefined), ('':e'', S JUndefined)]),
       ConsoleError ''DynamoDB Update error''
         (JsError ''ValidationException'' ''One or more parameter values were invalid'')])
   \<and> put_users_id_v1 dynamo_model
       \<lparr>params_id = ''u1'', req_body = [(''name'', JStr []), (''email'', JStr ''a@x.com'')]\<rparr> [] =
     (\<lparr>status = 200, body = JObj [(''message'', JStr ''User updated!'')]\<rparr>,
      [[(''userId'', S (JStr ''u1'')), (''name'', S (JStr [])), (''email'', S (JStr ''a@x.com''))]],
      [DynamoSend (UpdateItemCommand TABLE [(''userId'', S (JStr ''u1''))] update_expression
                     [(''#n'', ''name'')] [('':n'', S (JStr [])), ('':e'', S (JStr ''a@x.com''))])])"
  using put_users_id_v1_has_no_presence_check
      [of dynamo_model "\<lparr>params_id = ''u1'', req_body = []\<rparr>" "[]"]
  by (simp add: put_users_id_v1_def send_v1_def js_prop_def Let_def key_ok_userId string_attr_def
      internal_server_error_def user_updated_def validation_exception_def no_output_def)

text \<open>The handler of lines 278-305 does make the check, before any storage call.\<close>

lemma put_users_id_missing_fields:
  assumes "k \<in> {''name'', ''email''}"
    and "map_of (req_body req) k = None \<or> map_of (req_body req) k = Some (JStr [])"
  shows "put_users_id env req s = (missing_fields, s, [])"
proof -
  have "\<not> truthy (js_prop (req_body req) k)"
    using assms(2) by (rule absent_or_empty_falsy)
  with assms(1) show ?thesis
    by (auto simp: put_users_id_def Let_def)
qed

section \<open>Failures of the store and of the order service\<close>

text \<open>
  C7. In each of the five handlers, when the storage step throws (the client throws, or is
  undefined, or an item lacks an attribute), the response is status 500 with the body
  \<^verbatim>\<open>{error: "Internal server error"}\<close>: the same constant for every error, so nothing of
  the error reaches the body. For create and update the storage step is reached only with
  truthy fields.
\<close>

theorem storage_error_gives_500:
  "(truthy (js_prop (req_body req) ''userId'') \<and> truthy (js_prop (req_body req) ''name'')
      \<and> truthy (js_prop (req_body req) ''email'')
      \<and> fst (storage_create env (js_prop (req_body req) ''userId'')
                (js_prop (req_body req) ''name'') (js_prop (req_body req) ''email'') s) = Inl e1
    \<longrightarrow> fst (post_users env req s) =
          \<lparr>status = 500, body = JObj [(''error'', JStr ''Internal server error'')]\<rparr>)
   \<and> (fst (storage_get env (params_id req) s) = Inl e2
    \<longrightarrow> fst (get_users_id env req s) =
          \<lparr>status = 500, body = JObj [(''error'', JStr ''Internal server error'')]\<rparr>)
   \<and> (truthy (js_prop (req_body req) ''name'') \<and> truthy (js_prop (req_body req) ''email'')
      \<and> fst (storage_update env (params_id req) (js_prop (req_body req) ''name'')
                (js_prop (req_body req) ''email'') s) = Inl e3
    \<longrightarrow> fst (put_users_id env req s) =
          \<lparr>status = 500, body = JObj [(''error'', JStr ''Internal server error'')]\<rparr>)
   \<and> (fst (storage_delete env (params_id req) s) = Inl e4
    \<longrightarrow> fst (delete_users_id env req s) =
          \<lparr>status = 500, body = JObj [(''error'', JStr ''Internal server error'')]\<rparr>)
   \<and> (fst (storage_list env s) = Inl e5
    \<longrightarrow> fst (get_users env req s) =
          \<lparr>status = 500, body = JObj [(''error'', JStr ''Internal server error'')]\<rparr>)"
  by (auto simp: post_users_def get_users_id_def put_users_id_def delete_users_id_def
      get_users_def Let_def internal_server_error_def split: prod.splits sum.splits)

text \<open>A relational client whose every query fails with a connection error.\<close>

theorem storage_error_gives_500_witness:
  "fst (post_users
          \<lparr>usePostgres = True,
           pgClient = Some (\<lambda>text vals s. (Inl (JsError ''Error'' ''connect ECONNREFUSED''), s)),
           dynamo = None, axios_get = (\<lambda>_. Inr (JArr []))\<rparr>
          \<lparr>params_id = ''u1'', req_body = [(''userId'', JStr ''u1''), (''name'', JStr ''Ann''),
                                           (''email'', JStr ''ann@x.com'')]\<rparr> ()) =
     \<lparr>status = 500, body = JObj [(''error'', JStr ''Internal server error'')]\<rparr>
   \<and> fst (get_users_id
          \<lparr>usePostgres = True,
           pgClient = Some (\<lambda>text vals s. (Inl (JsError ''Error'' ''connect ECONNREFUSED''), s)),
           dynamo = None, axios_get = (\<lambda>_. Inr (JArr []))\<rparr>
          \<lparr>params_id = ''u1'', req_body = [(''userId'', JStr ''u1''), (''name'', JStr ''Ann''),
                                           (''email'', JStr ''ann@x.com'')]\<rparr> ()) =
     \<lparr>status = 500, body = JObj [(''error'', JStr ''Internal server error'')]\<rparr>
   \<and> fst (put_users_id
          \<lparr>usePostgres = True,
           pgClient = Some (\<lambda>text vals s. (Inl (JsError ''Error'' ''connect ECONNREFUSED''), s)),
           dynamo = None, axios_get = (\<lambda>_. Inr (JArr []))\<rparr>
          \<lparr>params_id = ''u1'', req_body = [(''userId'', JStr ''u1''), (''name'', JStr ''Ann''),
                                           (''email'', JStr ''ann@x.com'')]\<rparr> ()) =
     \<lparr>status = 500, body = JObj [(''error'', JStr ''Internal server error'')]\<rparr>
   \<and> fst (delete_users_id
          \<lparr>usePostgres = True,
           pgClient = Some (\<lambda>text vals s. (Inl (JsError ''Error'' ''connect ECONNREFUSED''), s)),
           dynamo = None, axios_get = (\<lambda>_. Inr (JArr []))\<rparr>
          \<lparr>params_id = ''u1'', req_body = [(''userId'', JStr ''u1''), (''name'', JStr ''Ann''),
                                           (''email'', JStr ''ann@x.com'')]\<rparr> ()) =
     \<lparr>status = 500, body = JObj [(''error'', JStr ''Internal server error'')]\<rparr>
   \<and> fst (get_users
          \<lparr>usePostgres = True,
           pgClient = Some (\<lambda>text vals s. (Inl (JsError ''Error'' ''connect ECONNREFUSED''), s)),
           dynamo = None, axios_get = (\<lambda>_. Inr (JArr []))\<rparr>
          \<lparr>params_id = ''u1'', req_body = [(''userId'', JStr ''u1''), (''name'', JStr ''Ann''),
                                           (''email'', JStr ''ann@x.com'')]\<rparr> ()) =
     \<lparr>status = 500, body = JObj [(''error'', JStr ''Internal server error'')]\<rparr>"
proof -
  let ?e = "JsError ''Error'' ''connect ECONNREFUSED''"
  let ?env = "\<lparr>usePostgres = True, pgClient = Some (\<lambda>text vals s. (Inl ?e, s)),
               dynamo = None, axios_get = (\<lambda>_. Inr (JArr []))\<rparr> :: unit env"
  let ?req = "\<lparr>params_id = ''u1'', req_body = [(''userId'', JStr ''u1''), (''name'', JStr ''Ann''),
                                                (''email'', JStr ''ann@x.com'')]\<rparr>"
  have throws:
    "fst (storage_create ?env (js_prop (req_body ?req) ''userId'') (js_prop (req_body ?req) ''name'')
            (js_prop (req_body ?req) ''email'') ()) = Inl ?e"
    "fst (storage_get ?env (params_id ?req) ()) = Inl ?e"
    "fst (storage_update ?env (params_id ?req) (js_prop (req_body ?req) ''name'')
            (js_prop (req_body ?req) ''email'') ()) = Inl ?e"
    "fst (storage_delete ?env (params_id ?req) ()) = Inl ?e"
    "fst (storage_list ?env ()) = Inl ?e"
    by (simp_all add: storage_create_def storage_get_def storage_update_def storage_delete_def
        storage_list_def pg_call_def)
  have fields:
    "truthy (js_prop (req_body ?req) ''userId'')" "truthy (js_prop (req_body ?req) ''name'')"
    "truthy (js_prop (req_body ?req) ''email'')"
    by (simp_all add: js_prop_def)
  from storage_error_gives_500 [of ?req ?env "()" ?e ?e ?e ?e ?e] throws fields
  show ?thesis by blast
qed

text \<open>
  C5. When the storage lookup of \<^verbatim>\<open>GET /users/:id\<close> finds the user and the call to the
  order service throws (axios throws on a network error, a status outside 2xx, a timeout),
  the response is status 200 with the user and \<^verbatim>\<open>orders: []\<close>.
\<close>

theorem order_failure_is_swallowed:
  assumes "storage_get env (params_id req) s = (Inr (Some user), s', fx)"
    and "axios_get env (orders_url (params_id req)) = Inl e"
  shows "fst (get_users_id env req s) =
           \<lparr>status = 200, body = JObj [(''user'', user), (''orders'', JArr [])]\<rparr>"
  using assms by (simp add: get_users_id_def)

text \<open>A stored user, read while the order service refuses connections.\<close>

theorem order_failure_is_swallowed_witness:
  "storage_get (dynamo_env (\<lambda>_. Inl (JsError ''Error'' ''connect ECONNREFUSED''))) ''u1''
     [[(''userId'', S (JStr ''u1'')), (''name'', S (JStr ''Ann'')),
       (''email'', S (JStr ''ann@x.com''))]] =
     (Inr (Some (JObj [(''userId'', JStr ''u1''), (''name'', JStr ''Ann''),
                       (''email'', JStr ''ann@x.com'')])),
      [[(''userId'', S (JStr ''u1'')), (''name'', S (JStr ''Ann'')),
        (''email'', S (JStr ''ann@x.com''))]],
      [DynamoSend (GetItemCommand TABLE [(''userId'', S (JStr ''u1''))])])
   \<and> fst (get_users_id (dynamo_env (\<lambda>_. Inl (JsError ''Error'' ''connect ECONNREFUSED'')))
            \<lparr>params_id = ''u1'', req_body = []\<rparr>
            [[(''userId'', S (JStr ''u1'')), (''name'', S (JStr ''Ann'')),
              (''email'', S (JStr ''ann@x.com''))]]) =
       \<lparr>status = 200,
        body = JObj [(''user'', JObj [(''userId'', JStr ''u1''), (''name'', JStr ''Ann''),
                                      (''email'', JStr ''ann@x.com'')]),
                     (''orders'', JArr [])]\<rparr>"
proof -
  let ?env = "dynamo_env (\<lambda>_. Inl (JsError ''Error'' ''connect ECONNREFUSED''))"
  let ?req = "\<lparr>params_id = ''u1'', req_body = []\<rparr>"
  let ?kv = "[[(''userId'', S (JStr ''u1'')), (''name'', S (JStr ''Ann'')),
               (''email'', S (JStr ''ann@x.com''))]]"
  have found: "storage_get ?env (params_id ?req) ?kv =
     (Inr (Some (JObj [(''userId'', JStr ''u1''), (''name'', JStr ''Ann''),
                       (''email'', JStr ''ann@x.com'')])),
      ?kv, [DynamoSend (GetItemCommand TABLE [(''userId'', S (JStr ''u1''))])])"
    by (simp add: storage_get_dynamo item_key_userId item_user_user)
  have failed: "axios_get ?env (orders_url (params_id ?req)) =
                  Inl (JsError ''Error'' ''connect ECONNREFUSED'')"
    by (simp add: env_simps)
  from order_failure_is_swallowed [OF found failed] found show ?thesis by simp
qed

text \<open>
  C9. In \<^verbatim>\<open>GET /users/:id\<close> a 404 response comes with no request to the order service;
  and whenever the order service is called, the storage lookup has returned a user and the
  calls issued are exactly two, the storage lookup first and the order request second.
\<close>

theorem order_lookup_follows_storage_lookup:
  "case get_users_id env req s of
     (res, s', fx) \<Rightarrow>
       (status res = 404 \<longrightarrow> (\<forall>u. AxiosGet u \<notin> set fx))
       \<and> (\<forall>u. AxiosGet u \<in> set fx \<longrightarrow>
             (\<exists>user. fst (storage_get env (params_id req) s) = Inr (Some user))
             \<and> fx = [if usePostgres env then PgQuery sql_select_by_id [JStr (params_id req)]
                     else DynamoSend (GetItemCommand TABLE [(''userId'', S (JStr (params_id req)))]),
                     AxiosGet (orders_url (params_id req))])"
  by (auto simp: get_users_id_def storage_get_def pg_call_def dynamo_call_def Let_def
      status_simps split: prod.splits sum.splits option.splits if_splits)

text \<open>A lookup that finds nothing, and one that finds the user.\<close>

theorem order_lookup_follows_storage_lookup_witness:
  "(case get_users_id (pg_env (\<lambda>_. Inr (JArr []))) \<lparr>params_id = ''u1'', req_body = []\<rparr> [] of
      (res, s', fx) \<Rightarrow>
        status res = 404 \<and> fx = [PgQuery sql_select_by_id [JStr ''u1'']]
        \<and> (\<forall>u. AxiosGet u \<notin> set fx))
   \<and> (case get_users_id (pg_env (\<lambda>_. Inr (JArr []))) \<lparr>params_id = ''u1'', req_body = []\<rparr>
              [(''u1'', ''Ann'', ''ann@x.com'')] of
      (res, s', fx) \<Rightarrow>
        status res = 200 \<and> AxiosGet (orders_url ''u1'') \<in> set fx
        \<and> fx = [PgQuery sql_select_by_id [JStr ''u1''], AxiosGet (orders_url ''u1'')])"
  using order_lookup_follows_storage_lookup
      [of "pg_env (\<lambda>_. Inr (JArr []))" "\<lparr>params_id = ''u1'', req_body = []\<rparr>" "[]"]
    order_lookup_follows_storage_lookup
      [of "pg_env (\<lambda>_. Inr (JArr []))" "\<lparr>params_id = ''u1'', req_body = []\<rparr>"
          "[(''u1'', ''Ann'', ''ann@x.com'')]"]
  by (simp add: get_users_id_pg status_simps env_simps)

section \<open>Create, read and delete on the two stores\<close>

text \<open>
  C6. A \<^verbatim>\<open>POST /users\<close> with non-empty string fields and an id that is already stored:
  on the key-value store the answer is 201 and the table then holds exactly one item with
  that id, the new one, the other items untouched; on the relational store the insert
  fails on the primary key, the answer is 500 with the generic body, and the table is
  unchanged.
\<close>

theorem create_on_existing_id:
  assumes "js_prop (req_body req) ''userId'' = JStr u" "js_prop (req_body req) ''name'' = JStr n"
    "js_prop (req_body req) ''email'' = JStr e" "u \<noteq> []" "n \<noteq> []" "e \<noteq> []"
  shows "(list_ex (\<lambda>i. item_key i = Some (S (JStr u))) kv \<longrightarrow>
            (case post_users (dynamo_env ax) req kv of
               (res, kv', fx) \<Rightarrow>
                 res = \<lparr>status = 201, body = JObj [(''message'', JStr ''User created!'')]\<rparr>
                 \<and> filter (\<lambda>i. item_key i = Some (S (JStr u))) kv' =
                     [[(''userId'', S (JStr u)), (''name'', S (JStr n)), (''email'', S (JStr e))]]
                 \<and> filter (\<lambda>i. item_key i \<noteq> Some (S (JStr u))) kv' =
                     filter (\<lambda>i. item_key i \<noteq> Some (S (JStr u))) kv))
       \<and> (list_ex (\<lambda>r. fst r = u) rel \<longrightarrow>
            post_users (pg_env ax) req rel =
              (\<lparr>status = 500, body = JObj [(''error'', JStr ''Internal server error'')]\<rparr>, rel,
               [PgQuery sql_insert [JStr u, JStr n, JStr e],
                ConsoleError ''Create user error:''
                  (JsError ''error'' ''duplicate key value violates unique constraint users_pkey'')]))"
proof -
  have "filter (\<lambda>i. item_key i = Some (S (JStr u))) (filter (\<lambda>i. item_key i \<noteq> Some (S (JStr u))) kv) = []"
    by (induction kv) auto
  then show ?thesis
    using assms
    by (simp add: post_users_pg post_users_dynamo user_created_def internal_server_error_def
        unique_violation_def item_key_userId)
qed

text \<open>The user \<^verbatim>\<open>u1\<close> is stored as Ann and posted again as Annie.\<close>

theorem create_on_existing_id_witness:
  "post_users (dynamo_env (\<lambda>_. Inr (JArr [])))
     \<lparr>params_id = [], req_body = [(''userId'', JStr ''u1''), (''name'', JStr ''Annie''),
                                   (''email'', JStr ''a@x.com'')]\<rparr>
     [[(''userId'', S (JStr ''u1'')), (''name'', S (JStr ''Ann'')),
       (''email'', S (JStr ''ann@x.com''))]] =
     (\<lparr>status = 201, body = JObj [(''message'', JStr ''User created!'')]\<rparr>,
      [[(''userId'', S (JStr ''u1'')), (''name'', S (JStr ''Annie'')),
        (''email'', S (JStr ''a@x.com''))]],
      [DynamoSend (PutItemCommand TABLE
         [(''userId'', S (JStr ''u1'')), (''name'', S (JStr ''Annie'')),
          (''email'', S (JStr ''a@x.com''))])])
   \<and> post_users (pg_env (\<lambda>_. Inr (JArr [])))
     \<lparr>params_id = [], req_body = [(''userId'', JStr ''u1''), (''name'', JStr ''Annie''),
                                   (''email'', JStr ''a@x.com'')]\<rparr>
     [(''u1'', ''Ann'', ''ann@x.com'')] =
     (\<lparr>status = 500, body = JObj [(''error'', JStr ''Internal server error'')]\<rparr>,
      [(''u1'', ''Ann'', ''ann@x.com'')],
      [PgQuery sql_insert [JStr ''u1'', JStr ''Annie'', JStr ''a@x.com''],
       ConsoleError ''Create user error:''
         (JsError ''error'' ''duplicate key value violates unique constraint users_pkey'')])"
  using create_on_existing_id
    [of "\<lparr>params_id = [], req_body = [(''userId'', JStr ''u1''), (''name'', JStr ''Annie''),
                                      (''email'', JStr ''a@x.com'')]\<rparr>"
        "''u1''" "''Annie''" "''a@x.com''"
        "[[(''userId'', S (JStr ''u1'')), (''name'', S (JStr ''Ann'')),
           (''email'', S (JStr ''ann@x.com''))]]"
        "\<lambda>_. Inr (JArr [])" "[(''u1'', ''Ann'', ''ann@x.com'')]"]
  by (simp add: js_prop_def item_key_userId post_users_dynamo user_created_def)

text \<open>
  C8. \<^verbatim>\<open>DELETE /users/:id\<close> answers 200 with \<^verbatim>\<open>{message: "User deleted!"}\<close> whenever the
  storage step succeeds; on both stores it succeeds whether or not the id is stored, and a
  \<^verbatim>\<open>GET /users/:id\<close> for the same id on the resulting table answers 404. (Express matches
  \<^verbatim>\<open>/users/:id\<close> only with a non-empty id; the key-value store rejects an empty key.)
\<close>

theorem delete_then_get:
  "(fst (storage_delete env (params_id req) s) = Inr ()
      \<longrightarrow> fst (delete_users_id env req s) =
            \<lparr>status = 200, body = JObj [(''message'', JStr ''User deleted!'')]\<rparr>)
   \<and> (case delete_users_id (pg_env ax) req rel of
        (res, rel', fx) \<Rightarrow>
          res = \<lparr>status = 200, body = JObj [(''message'', JStr ''User deleted!'')]\<rparr>
          \<and> fst (get_users_id (pg_env ax) req rel') =
              \<lparr>status = 404, body = JObj [(''error'', JStr ''User not found'')]\<rparr>)
   \<and> (params_id req \<noteq> [] \<longrightarrow>
        (case delete_users_id (dynamo_env ax) req kv of
           (res, kv', fx) \<Rightarrow>
             res = \<lparr>status = 200, body = JObj [(''message'', JStr ''User deleted!'')]\<rparr>
             \<and> fst (get_users_id (dynamo_env ax) req kv') =
                 \<lparr>status = 404, body = JObj [(''error'', JStr ''User not found'')]\<rparr>))"
proof -
  have a: "fst (storage_delete env (params_id req) s) = Inr ()
      \<longrightarrow> fst (delete_users_id env req s) =
            \<lparr>status = 200, body = JObj [(''message'', JStr ''User deleted!'')]\<rparr>"
    by (auto simp: delete_users_id_def user_deleted_def split: prod.splits sum.splits)
  have f: "filter (\<lambda>r. fst r = params_id req) (filter (\<lambda>r. fst r \<noteq> params_id req) rel) = []"
    by (induction rel) auto
  have b: "case delete_users_id (pg_env ax) req rel of
        (res, rel', fx) \<Rightarrow>
          res = \<lparr>status = 200, body = JObj [(''message'', JStr ''User deleted!'')]\<rparr>
          \<and> fst (get_users_id (pg_env ax) req rel') =
              \<lparr>status = 404, body = JObj [(''error'', JStr ''User not found'')]\<rparr>"
    by (simp add: delete_users_id_def storage_delete_def pg_call_def env_simps pg_delete
        user_deleted_def get_users_id_pg f user_not_found_def)
  have c: "params_id req \<noteq> [] \<longrightarrow>
        (case delete_users_id (dynamo_env ax) req kv of
           (res, kv', fx) \<Rightarrow>
             res = \<lparr>status = 200, body = JObj [(''message'', JStr ''User deleted!'')]\<rparr>
             \<and> fst (get_users_id (dynamo_env ax) req kv') =
                 \<lparr>status = 404, body = JObj [(''error'', JStr ''User not found'')]\<rparr>)"
    by (simp add: delete_users_id_def storage_delete_def dynamo_call_def env_simps
        user_deleted_def get_users_id_dynamo key_ok_userId item_key_userId find_filter_none
        user_not_found_def)
  from a b c show ?thesis by blast
qed

text \<open>A delete on an empty relational table, and one on a key-value table holding the id.\<close>

theorem delete_then_get_witness:
  "fst (storage_delete (pg_env (\<lambda>_. Inr (JArr []))) ''u1'' []) = Inr ()
   \<and> delete_users_id (pg_env (\<lambda>_. Inr (JArr []))) \<lparr>params_id = ''u1'', req_body = []\<rparr> [] =
       (\<lparr>status = 200, body = JObj [(''message'', JStr ''User deleted!'')]\<rparr>, [],
        [PgQuery sql_delete [JStr ''u1'']])
   \<and> fst (get_users_id (pg_env (\<lambda>_. Inr (JArr []))) \<lparr>params_id = ''u1'', req_body = []\<rparr> []) =
       \<lparr>status = 404, body = JObj [(''error'', JStr ''User not found'')]\<rparr>
   \<and> ''u1'' \<noteq> []
   \<and> delete_users_id (dynamo_env (\<lambda>_. Inr (JArr []))) \<lparr>params_id = ''u1'', req_body = []\<rparr>
         [[(''userId'', S (JStr ''u1'')), (''name'', S (JStr ''Ann'')),
           (''email'', S (JStr ''ann@x.com''))]] =
       (\<lparr>status = 200, body = JObj [(''message'', JStr ''User deleted!'')]\<rparr>, [],
        [DynamoSend (DeleteItemCommand TABLE [(''userId'', S (JStr ''u1''))])])
   \<and> fst (get_users_id (dynamo_env (\<lambda>_. Inr (JArr []))) \<lparr>params_id = ''u1'', req_body = []\<rparr> []) =
       \<lparr>status = 404, body = JObj [(''error'', JStr ''User not found'')]\<rparr>"
  using delete_then_get
    [of "pg_env (\<lambda>_. Inr (JArr []))" "\<lparr>params_id = ''u1'', req_body = []\<rparr>" "[]"
        "\<lambda>_. Inr (JArr [])" "[]"
        "[[(''userId'', S (JStr ''u1'')), (''name'', S (JStr ''Ann'')),
           (''email'', S (JStr ''ann@x.com''))]]"]
  by (simp add: delete_users_id_def storage_delete_def pg_call_def dynamo_call_def env_simps
      pg_delete key_ok_userId item_key_userId user_deleted_def)

text \<open>
  C3. The claim is that \<^verbatim>\<open>GET /users/:id\<close> after a successful \<^verbatim>\<open>POST /users\<close> with
  non-empty strings returns a user object with the same \<^verbatim>\<open>userId\<close>, \<^verbatim>\<open>name\<close> and
  \<^verbatim>\<open>email\<close>, in both backends. On the key-value store it does. On the relational store
  the response is 200 and the user object is the row as the store returns it,
  \<^verbatim>\<open>{userid, name, email}\<close>: the three values are the posted ones, and the object has no
  \<^verbatim>\<open>userId\<close> property.
\<close>

theorem post_then_get:
  assumes "js_prop (req_body req) ''userId'' = JStr u" "js_prop (req_body req) ''name'' = JStr n"
    "js_prop (req_body req) ''email'' = JStr e" "u \<noteq> []" "n \<noteq> []" "e \<noteq> []"
  shows "(case post_users (dynamo_env ax) req kv of
            (res, kv', fx) \<Rightarrow>
              status res = 201
              \<and> fst (get_users_id (dynamo_env ax) \<lparr>params_id = u, req_body = b\<rparr> kv') =
                  \<lparr>status = 200,
                   body = JObj [(''user'', JObj [(''userId'', JStr u), (''name'', JStr n),
                                                 (''email'', JStr e)]),
                                (''orders'', case ax (orders_url u) of
                                               Inl _ \<Rightarrow> JArr [] | Inr d \<Rightarrow> d)]\<rparr>)
       \<and> (case post_users (pg_env ax) req rel of
            (res, rel', fx) \<Rightarrow>
              status res = 201 \<longrightarrow>
              fst (get_users_id (pg_env ax) \<lparr>params_id = u, req_body = b\<rparr> rel') =
                \<lparr>status = 200,
                 body = JObj [(''user'', JObj [(''userid'', JStr u), (''name'', JStr n),
                                               (''email'', JStr e)]),
                              (''orders'', case ax (orders_url u) of
                                             Inl _ \<Rightarrow> JArr [] | Inr d \<Rightarrow> d)]\<rparr>)
       \<and> js_prop [(''userid'', JStr u), (''name'', JStr n), (''email'', JStr e)] ''userId'' =
           JUndefined"
proof -
  have kv: "find (\<lambda>i. item_key i = Some (S (JStr u)))
              (filter (\<lambda>i. item_key i \<noteq> Some (S (JStr u))) kv
                 @ [[(''userId'', S (JStr u)), (''name'', S (JStr n)), (''email'', S (JStr e))]]) =
            Some [(''userId'', S (JStr u)), (''name'', S (JStr n)), (''email'', S (JStr e))]"
    using find_filter_append [of "\<lambda>i. item_key i = Some (S (JStr u))" kv]
    by (simp add: item_key_userId)
  have rel: "\<not> list_ex (\<lambda>r. fst r = u) rel \<Longrightarrow>
             filter (\<lambda>r. fst r = u) (rel @ [(u, n, e)]) = [(u, n, e)]"
    by (simp add: filter_none)
  show ?thesis
    using assms kv rel
    by (simp add: post_users_dynamo post_users_pg get_users_id_dynamo get_users_id_pg
        status_simps item_user_user row_object_def js_prop_def)
qed

text \<open>The user \<^verbatim>\<open>u1\<close> created in an empty table of either store, then read.\<close>

theorem post_then_get_witness:
  "(case post_users (dynamo_env (\<lambda>_. Inr (JArr [])))
           \<lparr>params_id = [], req_body = [(''userId'', JStr ''u1''), (''name'', JStr ''Ann''),
                                         (''email'', JStr ''ann@x.com'')]\<rparr> [] of
      (res, kv', fx) \<Rightarrow>
        status res = 201
        \<and> fst (get_users_id (dynamo_env (\<lambda>_. Inr (JArr [])))
                 \<lparr>params_id = ''u1'', req_body = []\<rparr> kv') =
            \<lparr>status = 200,
             body = JObj [(''user'', JObj [(''userId'', JStr ''u1''), (''name'', JStr ''Ann''),
                                           (''email'', JStr ''ann@x.com'')]),
                          (''orders'', JArr [])]\<rparr>)
   \<and> (case post_users (pg_env (\<lambda>_. Inr (JArr [])))
           \<lparr>params_id = [], req_body = [(''userId'', JStr ''u1''), (''name'', JStr ''Ann''),
                                         (''email'', JStr ''ann@x.com'')]\<rparr> [] of
      (res, rel', fx) \<Rightarrow>
        status res = 201
        \<and> fst (get_users_id (pg_env (\<lambda>_. Inr (JArr [])))
                 \<lparr>params_id = ''u1'', req_body = []\<rparr> rel') =
            \<lparr>status = 200,
             body = JObj [(''user'', JObj [(''userid'', JStr ''u1''), (''name'', JStr ''Ann''),
                                           (''email'', JStr ''ann@x.com'')]),
                          (''orders'', JArr [])]\<rparr>)"
  using post_then_get
    [of "\<lparr>params_id = [], req_body = [(''userId'', JStr ''u1''), (''name'', JStr ''Ann''),
                                      (''email'', JStr ''ann@x.com'')]\<rparr>"
        "''u1''" "''Ann''" "''ann@x.com''" "\<lambda>_. Inr (JArr [])" "[]" "[]" "[]"]
  by (simp add: js_prop_def post_users_pg post_users_dynamo status_simps split: prod.splits)

section \<open>The shape of the returned users\<close>

text \<open>
  On the key-value store every 200 response of \<^verbatim>\<open>GET /users/:id\<close> and \<^verbatim>\<open>GET /users\<close>
  carries user objects with exactly the keys \<^verbatim>\<open>userId\<close>, \<^verbatim>\<open>name\<close>, \<^verbatim>\<open>email\<close>, whatever
  the client returns: the handlers build the objects themselves.
\<close>

lemma map_users_shape:
  "map_users items = Inr us \<Longrightarrow>
     \<forall>x \<in> set us. \<exists>u n m. x = JObj [(''userId'', u), (''name'', n), (''email'', m)]"
proof (induction items arbitrary: us)
  case Nil
  then show ?case by simp
next
  case (Cons i rest)
  then show ?case
    by (auto simp: item_user_def split: sum.splits)
qed

lemma key_value_user_shape:
  assumes "\<not> usePostgres env"
  shows "(status (fst (get_users_id env req s)) = 200 \<longrightarrow>
            (\<exists>u n m orders. body (fst (get_users_id env req s)) =
               JObj [(''user'', JObj [(''userId'', u), (''name'', n), (''email'', m)]),
                     (''orders'', orders)]))
       \<and> (status (fst (get_users env req s)) = 200 \<longrightarrow>
            (\<exists>us. body (fst (get_users env req s)) = JArr us
               \<and> (\<forall>x \<in> set us. \<exists>u n m.
                     x = JObj [(''userId'', u), (''name'', n), (''email'', m)])))"
  using assms
  by (auto simp: get_users_id_def storage_get_def get_users_def storage_list_def Let_def
      status_simps item_user_def dest: map_users_shape
      split: prod.splits sum.splits option.splits)

text \<open>
  C1. The claim is that both backends return user objects of the shape
  \<^verbatim>\<open>{userId, name, email}\<close>. Under \<^verbatim>\<open>usePostgres\<close> the handlers pass the rows on as the
  store returns them (\<^verbatim>\<open>user = result.rows[0]\<close>, \<^verbatim>\<open>res.json(result.rows)\<close>): the objects
  are keyed \<^verbatim>\<open>userid\<close>, \<^verbatim>\<open>name\<close>, \<^verbatim>\<open>email\<close>, and reading \<^verbatim>\<open>userId\<close> from one gives
  \<^verbatim>\<open>undefined\<close>.
\<close>

theorem relational_user_object_keys:
  assumes "filter (\<lambda>r. fst r = params_id req) rel = (u, n, e) # others"
  shows "fst (get_users_id (pg_env ax) req rel) =
           \<lparr>status = 200,
            body = JObj [(''user'', JObj [(''userid'', JStr u), (''name'', JStr n),
                                          (''email'', JStr e)]),
                         (''orders'', case ax (orders_url (params_id req)) of
                                        Inl _ \<Rightarrow> JArr [] | Inr d \<Rightarrow> d)]\<rparr>
         \<and> fst (get_users (pg_env ax) req rel) =
           \<lparr>status = 200,
            body = JArr (map (\<lambda>(u, n, e). JObj [(''userid'', JStr u), (''name'', JStr n),
                                                (''email'', JStr e)]) rel)\<rparr>
         \<and> js_prop [(''userid'', JStr u), (''name'', JStr n), (''email'', JStr e)] ''userId'' =
             JUndefined"
proof -
  have r: "row_object = (\<lambda>(u, n, e). JObj [(''userid'', JStr u), (''name'', JStr n),
                                            (''email'', JStr e)])"
    by (auto simp: row_object_def fun_eq_iff)
  show ?thesis
    using assms
    by (simp add: get_users_id_pg get_users_def storage_list_def pg_call_def env_simps
        pg_select_all js_prop_def r)
qed

text \<open>A relational table holding the one user \<^verbatim>\<open>u1\<close>.\<close>

theorem relational_user_object_keys_witness:
  "filter (\<lambda>r. fst r = ''u1'') [(''u1'', ''Ann'', ''ann@x.com'')] = [(''u1'', ''Ann'', ''ann@x.com'')]
   \<and> fst (get_users_id (pg_env (\<lambda>_. Inr (JArr []))) \<lparr>params_id = ''u1'', req_body = []\<rparr>
            [(''u1'', ''Ann'', ''ann@x.com'')]) =
       \<lparr>status = 200,
        body = JObj [(''user'', JObj [(''userid'', JStr ''u1''), (''name'', JStr ''Ann''),
                                      (''email'', JStr ''ann@x.com'')]),
                     (''orders'', JArr [])]\<rparr>
   \<and> fst (get_users (pg_env (\<lambda>_. Inr (JArr []))) \<lparr>params_id = [], req_body = []\<rparr>
            [(''u1'', ''Ann'', ''ann@x.com'')]) =
       \<lparr>status = 200,
        body = JArr [JObj [(''userid'', JStr ''u1''), (''name'', JStr ''Ann''),
                           (''email'', JStr ''ann@x.com'')]]\<rparr>"
  using relational_user_object_keys
      [of "\<lparr>params_id = ''u1'', req_body = []\<rparr>" "[(''u1'', ''Ann'', ''ann@x.com'')]"
          "''u1''" "''Ann''" "''ann@x.com''" "[]" "\<lambda>_. Inr (JArr [])"]
    relational_user_object_keys
      [of "\<lparr>params_id = ''u1'', req_body = []\<rparr>" "[(''u1'', ''Ann'', ''ann@x.com'')]"
          "''u1''" "''Ann''" "''ann@x.com''" "[]" "\<lambda>_. Inr (JArr [])"
          , THEN conjunct2, THEN conjunct1]
  by (simp add: get_users_def storage_list_def pg_call_def env_simps pg_select_all)

end
